theory Spec2Isabelle
  imports Main
begin

section \<open>Values exchanged with the remote API\<close>

text \<open>
  A Go \<^verbatim>\<open>error\<close> is an interface value with an \<^verbatim>\<open>Error()\<close> message; the nil error is
  \<open>None\<close> of \<open>error option\<close>. Go pointers that may be nil are options as well.
\<close>

datatype error = Err (Error: string)

datatype ctx = Background

datatype User = User (Login: string) (UserID: int)

datatype Repository = Repository (Name: string)

text \<open>
  The two outbound comment structs of the API client library, with the fields a caller
  can set; every field is a pointer in Go, hence an option. Fields that only the remote
  side fills in (URLs, timestamps, reactions) are left out.
\<close>

record RepositoryComment =
  RC_ID :: "int option"
  RC_CommitID :: "string option"
  RC_User :: "User option"
  RC_Body :: "string option"
  RC_Path :: "string option"
  RC_Position :: "int option"

record PullRequestComment =
  PC_ID :: "int option"
  PC_Body :: "string option"
  PC_Path :: "string option"
  PC_Position :: "int option"
  PC_CommitID :: "string option"
  PC_User :: "User option"

datatype GitService = GitService

text \<open>
  The remote API client. What the remote side answers is not decided by this program:
  each operation is a function from the arguments of the call to the pair
  (value, error) that the Go method returns (the HTTP response in the middle of the
  Go triple is dropped by every caller).
\<close>

record github_Client =
  Repositories_List :: "string \<Rightarrow> Repository list \<times> error option"
  Users_Get :: "string \<Rightarrow> User option \<times> error option"
  Repositories_CreateComment ::
    "string \<Rightarrow> string \<Rightarrow> string \<Rightarrow> RepositoryComment \<Rightarrow> RepositoryComment option \<times> error option"
  PullRequests_CreateComment ::
    "string \<Rightarrow> string \<Rightarrow> int \<Rightarrow> PullRequestComment \<Rightarrow> PullRequestComment option \<times> error option"
  Git :: GitService

record datastore =
  Context :: ctx
  Client :: "github_Client option"
  Service :: "GitService option"

definition port :: nat where
  "port = 5000"

section \<open>The response stream\<close>

text \<open>
  A handler never reads its \<^verbatim>\<open>http.ResponseWriter\<close>; it only calls it. The writer is
  therefore the list of calls made on it so far, oldest first. \<open>Write\<close> carries one
  chunk of body: the JSON text of a value followed by a newline, as one call of
  \<^verbatim>\<open>json.Encoder.Encode\<close> produces it, or raw text.
\<close>

datatype json = JInt int | JString string | JObject "(string \<times> json) list"

datatype body_part = Json json | Raw string

datatype rw_call = Header_Set string string | WriteHeader nat | Write body_part

type_synonym ResponseWriter = "rw_call list"

definition http_StatusOK :: nat where
  "http_StatusOK = 200"

definition http_StatusMovedPermanently :: nat where
  "http_StatusMovedPermanently = 301"

definition http_StatusNotFound :: nat where
  "http_StatusNotFound = 404"

definition http_StatusMethodNotAllowed :: nat where
  "http_StatusMethodNotAllowed = 405"

definition http_StatusInternalServerError :: nat where
  "http_StatusInternalServerError = 500"

text \<open>
  What the HTTP server makes of the calls (package net/http): the first \<open>WriteHeader\<close>
  fixes the status and the header map as it is at that moment, later ones are ignored;
  a \<open>Write\<close> before any \<open>WriteHeader\<close> implies \<open>WriteHeader 200\<close>; a handler that
  returns without either gets status 200 and an empty body. Only the headers the
  handler sets are modelled, not those the server adds.
\<close>

record rw_state =
  hdr :: "string \<rightharpoonup> string list"
  wroteHeader :: bool
  status :: nat
  sent_hdr :: "string \<rightharpoonup> string list"
  out :: "body_part list"

definition rw_init :: rw_state where
  "rw_init = \<lparr>hdr = Map.empty, wroteHeader = False, status = 0, sent_hdr = Map.empty, out = []\<rparr>"

definition do_WriteHeader :: "nat \<Rightarrow> rw_state \<Rightarrow> rw_state" where
  "do_WriteHeader code s =
     (if wroteHeader s then s
      else s\<lparr>wroteHeader := True, status := code, sent_hdr := hdr s\<rparr>)"

fun rw_step :: "rw_state \<Rightarrow> rw_call \<Rightarrow> rw_state" where
  "rw_step s (Header_Set k v) = s\<lparr>hdr := (hdr s)(k \<mapsto> [v])\<rparr>"
| "rw_step s (WriteHeader code) = do_WriteHeader code s"
| "rw_step s (Write b) =
     (let s' = do_WriteHeader http_StatusOK s in s'\<lparr>out := out s' @ [b]\<rparr>)"

record Response =
  StatusCode :: nat
  Header :: "string \<rightharpoonup> string list"
  Body :: "body_part list"

definition finishRequest :: "rw_state \<Rightarrow> Response" where
  "finishRequest s =
     (let s' = do_WriteHeader http_StatusOK s
      in \<lparr>StatusCode = status s', Header = sent_hdr s', Body = out s'\<rparr>)"

definition response :: "ResponseWriter \<Rightarrow> Response" where
  "response calls = finishRequest (foldl rw_step rw_init calls)"

text \<open>
  \<^verbatim>\<open>json.NewEncoder(w).Encode(v)\<close>: one write of the JSON text of \<open>v\<close>. The values
  encoded here (an int, a map from a string to a string) always marshal, and the
  stream takes every write, so the returned error is nil.
\<close>

definition Encode :: "ResponseWriter \<Rightarrow> json \<Rightarrow> ResponseWriter \<times> error option" where
  "Encode rw v = (rw @ [Write (Json v)], None)"

section \<open>The error writer\<close>

definition error_envelope :: "error \<Rightarrow> json" where
  "error_envelope e = JObject [(''error'', JString (Error e))]"

definition WriteError :: "ResponseWriter \<Rightarrow> error option \<Rightarrow> ResponseWriter \<times> bool" where
  "WriteError rw err =
     (case err of
        Some e \<Rightarrow>
          (let rw1 = rw @ [WriteHeader http_StatusInternalServerError];
               (rw2, _) = Encode rw1 (error_envelope e)
           in (rw2, True))
      | None \<Rightarrow> (rw, False))"

section \<open>Requests and what a handler does to the world\<close>

text \<open>
  A request as the router sees it: method and URL path, and the path variables the
  router has bound (\<^verbatim>\<open>mux.Vars\<close>). Indexing a Go map with a key that is not in it
  gives the zero value, the empty string. The other parts of the request URL (the
  query string among them) matter in one place only, where the router writes the URL
  out with another path in place of its own; \<open>URL_String\<close> is that rendering,
  \<^verbatim>\<open>url.String()\<close> after \<^verbatim>\<open>url.Path = p\<close>: the path percent-encoded, then the query
  string if the request has one.
\<close>

record Request =
  Method :: string
  Path :: string
  Vars :: "string \<rightharpoonup> string"
  URL_String :: "string \<Rightarrow> string"

definition mux_Vars :: "Request \<Rightarrow> string \<Rightarrow> string" where
  "mux_Vars r k = (case Vars r k of None \<Rightarrow> [] | Some v \<Rightarrow> v)"

datatype api_call =
    Call_Repositories_List string
  | Call_Users_Get string
  | Call_Repositories_CreateComment string string string RepositoryComment
  | Call_PullRequests_CreateComment string string int PullRequestComment

datatype printed = Println_error error | Println_comment "PullRequestComment option"

text \<open>
  The effects of serving one request: the calls on the response writer, the calls
  sent to the remote API, and the lines printed to the process log, each oldest first.
\<close>

record world =
  writer :: ResponseWriter
  remote_log :: "api_call list"
  stdout :: "printed list"

definition fresh :: world where
  "fresh = \<lparr>writer = [], remote_log = [], stdout = []\<rparr>"

definition log_call :: "api_call \<Rightarrow> world \<Rightarrow> world" where
  "log_call c s = s\<lparr>remote_log := remote_log s @ [c]\<rparr>"

definition println :: "printed \<Rightarrow> world \<Rightarrow> world" where
  "println p s = s\<lparr>stdout := stdout s @ [p]\<rparr>"

text \<open>
  A handler maps the request and the world before to the world after; \<open>None\<close> is the
  panic of dereferencing a nil \<^verbatim>\<open>data.Client\<close>.
\<close>

type_synonym HandlerFunc = "Request \<Rightarrow> world \<Rightarrow> world option"

section \<open>The handlers\<close>

definition GetCount :: "datastore \<Rightarrow> HandlerFunc" where
  "GetCount data r s =
     (let owner = mux_Vars r ''owner'' in
      case Client data of
        None \<Rightarrow> None
      | Some c \<Rightarrow>
          (let (repos, err) = Repositories_List c owner;
               s1 = log_call (Call_Repositories_List owner) s;
               (rw1, handled) = WriteError (writer s1) err
           in if handled then Some (s1\<lparr>writer := rw1\<rparr>)
              else
                (let rw2 = rw1 @ [Header_Set ''Content-Type'' ''application/json; charset=utf-8''];
                     (rw3, err') = Encode rw2 (JInt (int (length repos)));
                     (rw4, _) = WriteError rw3 err'
                 in Some (s1\<lparr>writer := rw4\<rparr>))))"

definition commit_msg :: string where
  "commit_msg = ''Commit message... replace me with message taken from request body.''"

definition CommitComment :: "datastore \<Rightarrow> HandlerFunc" where
  "CommitComment data r s =
     (let owner = mux_Vars r ''owner'';
          repo = mux_Vars r ''repo'';
          commit = mux_Vars r ''commit'' in
      case Client data of
        None \<Rightarrow> None
      | Some c \<Rightarrow>
          (let (user, err) = Users_Get c owner;
               s1 = log_call (Call_Users_Get owner) s;
               (rw1, handled) = WriteError (writer s1) err
           in if handled then Some (s1\<lparr>writer := rw1\<rparr>)
              else
                (let newComment =
                       \<lparr>RC_ID = None, RC_CommitID = Some commit, RC_User = user,
                        RC_Body = Some commit_msg, RC_Path = None, RC_Position = Some 1\<rparr>;
                     _ = Repositories_CreateComment c owner repo commit newComment
                 in Some (log_call (Call_Repositories_CreateComment owner repo commit newComment)
                            (s1\<lparr>writer := rw1\<rparr>)))))"

subsection \<open>Parsing the numeric path variables\<close>

text \<open>
  \<^verbatim>\<open>strconv.Atoi\<close> of the Go standard library, for a 64-bit \<^verbatim>\<open>int\<close>: it is
  \<^verbatim>\<open>ParseInt(s, 10, 0)\<close>, which takes an optional sign off and hands the rest to
  \<^verbatim>\<open>ParseUint\<close>. \<open>ParseUint_loop\<close> is the digit loop of \<^verbatim>\<open>ParseUint\<close> in base 10, the
  unsigned 64-bit accumulator a \<open>nat\<close> with the two overflow tests written out. A byte
  that is not a decimal digit is a syntax error with value 0; an overflow is a range
  error with the largest value of the type.
\<close>

datatype NumError = ErrSyntax | ErrRange

definition IntSize :: nat where
  "IntSize = 64"

definition maxUint64 :: nat where
  "maxUint64 = 2 ^ 64 - 1"

definition is_digit :: "char \<Rightarrow> bool" where
  "is_digit c = (48 \<le> (of_char c :: nat) \<and> (of_char c :: nat) \<le> 57)"

definition digit_val :: "char \<Rightarrow> nat" where
  "digit_val c = of_char c - 48"

fun ParseUint_loop :: "nat \<Rightarrow> string \<Rightarrow> nat \<times> NumError option" where
  "ParseUint_loop n [] = (n, None)"
| "ParseUint_loop n (c # cs) =
     (if \<not> is_digit c then (0, Some ErrSyntax)
      else if n \<ge> maxUint64 div 10 + 1 then (maxUint64, Some ErrRange)
      else (let n1 = n * 10 + digit_val c
            in if n1 > maxUint64 then (maxUint64, Some ErrRange)
               else ParseUint_loop n1 cs))"

definition ParseUint :: "string \<Rightarrow> nat \<times> NumError option" where
  "ParseUint s = (if s = [] then (0, Some ErrSyntax) else ParseUint_loop 0 s)"

definition ParseInt :: "string \<Rightarrow> int \<times> NumError option" where
  "ParseInt s =
     (if s = [] then (0, Some ErrSyntax)
      else
        (let neg = (hd s = CHR ''-'');
             s' = (if hd s = CHR ''+'' \<or> hd s = CHR ''-'' then tl s else s);
             (un, err) = ParseUint s'
         in if err \<noteq> None \<and> err \<noteq> Some ErrRange then (0, err)
            else
              (let cutoff = (2::nat) ^ (IntSize - 1)
               in if \<not> neg \<and> un \<ge> cutoff then (int cutoff - 1, Some ErrRange)
                  else if neg \<and> un > cutoff then (- int cutoff, Some ErrRange)
                  else (if neg then - int un else int un, None))))"

definition Atoi :: "string \<Rightarrow> int \<times> NumError option" where
  "Atoi s = ParseInt s"

definition pull_msg :: string where
  "pull_msg = ''hard coded comment message''"

definition PullComment :: "datastore \<Rightarrow> HandlerFunc" where
  "PullComment data r s =
     (let owner = mux_Vars r ''owner'';
          repo = mux_Vars r ''repo'';
          (number, _) = Atoi (mux_Vars r ''number'');
          commit = mux_Vars r ''commit'';
          path = mux_Vars r ''path'';
          (position, _) = Atoi (mux_Vars r ''position'');
          msg = pull_msg in
      case Client data of
        None \<Rightarrow> None
      | Some c \<Rightarrow>
          (let (user, err) = Users_Get c owner;
               s1 = log_call (Call_Users_Get owner) s;
               (rw1, handled) = WriteError (writer s1) err
           in if handled then Some (s1\<lparr>writer := rw1\<rparr>)
              else
                (let newComment =
                       \<lparr>PC_ID = None, PC_Body = Some msg, PC_Path = Some path,
                        PC_Position = Some position, PC_CommitID = Some commit,
                        PC_User = user\<rparr>;
                     (cmt, err') = PullRequests_CreateComment c owner repo number newComment;
                     s2 = log_call (Call_PullRequests_CreateComment owner repo number newComment)
                            (s1\<lparr>writer := rw1\<rparr>);
                     s3 = (case err' of Some e \<Rightarrow> println (Println_error e) s2 | None \<Rightarrow> s2)
                 in Some (println (Println_comment cmt) s3))))"

section \<open>The router\<close>

text \<open>
  A route of the router library is a set of methods and a path template. A template is
  a list of segments between slashes: literal text, or a variable with a pattern. The
  library compiles \<^verbatim>\<open>{name}\<close> to the pattern \<^verbatim>\<open>[^/]+\<close> and \<^verbatim>\<open>{name:[0-9]+}\<close> to
  \<^verbatim>\<open>[0-9]+\<close>, anchors the whole at both ends, and matches it against the URL path.
  Since no segment pattern can match a slash, that is: the path, split at its slashes,
  has one part per segment and each part matches its segment.
\<close>

datatype pattern = AnySegment | Digits

datatype seg = Lit string | Var string pattern

datatype handler_name = H_GetCount | H_CommitComment | H_PullComment

record Route =
  methods :: "string list"
  template :: "seg list"
  name :: handler_name
  handler :: HandlerFunc

fun split_slash :: "string \<Rightarrow> string list" where
  "split_slash [] = [[]]"
| "split_slash (c # cs) =
     (if c = CHR ''/'' then [] # split_slash cs
      else (case split_slash cs of [] \<Rightarrow> [[c]] | p # ps \<Rightarrow> (c # p) # ps))"

fun matches :: "pattern \<Rightarrow> string \<Rightarrow> bool" where
  "matches AnySegment p = (p \<noteq> [])"
| "matches Digits p = (p \<noteq> [] \<and> list_all is_digit p)"

fun match_segs :: "seg list \<Rightarrow> string list \<Rightarrow> (string \<times> string) list option" where
  "match_segs [] [] = Some []"
| "match_segs (Lit l # ts) (p # ps) = (if p = l then match_segs ts ps else None)"
| "match_segs (Var v pat # ts) (p # ps) =
     (if matches pat p then map_option ((#) (v, p)) (match_segs ts ps) else None)"
| "match_segs _ _ = None"

definition match_path :: "seg list \<Rightarrow> string \<Rightarrow> (string \<rightharpoonup> string) option" where
  "match_path t p =
     (case split_slash p of
        [] # ps \<Rightarrow> map_option map_of (match_segs t ps)
      | _ \<Rightarrow> None)"

text \<open>
  The router tries its routes in the order of registration and serves the first whose
  method and path both match. Each route tests the method first and the path second.
  The flag \<open>mm\<close> is the "method mismatch" that the router carries from route to route: a
  route whose path matches but whose method does not sets it, and a later route clears
  it again as soon as one of its tests succeeds, be it only the one of the method.
  When no route matches, the answer is "method not allowed" if the flag is set at the
  end and "not found" otherwise.
\<close>

datatype match_result = Matched Route "string \<rightharpoonup> string" | MethodMismatch | NotFound

fun Router_Match :: "Route list \<Rightarrow> Request \<Rightarrow> bool \<Rightarrow> match_result" where
  "Router_Match [] r mm = (if mm then MethodMismatch else NotFound)"
| "Router_Match (rt # rts) r mm =
     (let method_ok = (Method r \<in> set (methods rt));
          mm1 = (if method_ok then False else mm)
      in case match_path (template rt) (Path r) of
           None \<Rightarrow> Router_Match rts r mm1
         | Some vars \<Rightarrow>
             if method_ok then Matched rt vars
             else Router_Match rts r True)"

definition NewRouter :: "datastore \<Rightarrow> Route list" where
  "NewRouter data =
     [\<lparr>methods = [''GET''],
       template = [Var ''owner'' AnySegment, Lit ''repos'', Lit ''count''],
       name = H_GetCount, handler = GetCount data\<rparr>,
      \<lparr>methods = [''POST''],
       template = [Var ''owner'' AnySegment, Lit ''repos'', Var ''repo'' AnySegment,
                   Var ''commit'' AnySegment, Lit ''comment''],
       name = H_CommitComment, handler = CommitComment data\<rparr>,
      \<lparr>methods = [''POST''],
       template = [Var ''owner'' AnySegment, Lit ''pulls'', Var ''number'' Digits,
                   Var ''commit'' AnySegment, Var ''path'' AnySegment,
                   Var ''position'' Digits, Lit ''comment''],
       name = H_PullComment, handler = PullComment data\<rparr>]"

text \<open>
  Before it matches, the router brings the path to canonical form (the program does not
  switch this off): \<^verbatim>\<open>path.Clean\<close> drops empty and \<^verbatim>\<open>.\<close> segments and lets \<^verbatim>\<open>..\<close>
  cancel the segment before it; a trailing slash is kept. A request whose path is not
  canonical is answered with a redirect to the canonical path and matched against no
  route. The \<^verbatim>\<open>Location\<close> is the URL of the request written out with the canonical
  path.
\<close>

fun clean_stack :: "string list \<Rightarrow> string list \<Rightarrow> string list" where
  "clean_stack acc [] = rev acc"
| "clean_stack acc (p # ps) =
     (if p = [] \<or> p = ''.'' then clean_stack acc ps
      else if p = ''..'' then clean_stack (case acc of [] \<Rightarrow> [] | _ # acc' \<Rightarrow> acc') ps
      else clean_stack (p # acc) ps)"

definition path_Clean :: "string \<Rightarrow> string" where
  "path_Clean p =
     (let ps = clean_stack [] (split_slash p)
      in if ps = [] then ''/'' else concat (map ((#) CHR ''/'') ps))"

definition cleanPath :: "string \<Rightarrow> string" where
  "cleanPath p =
     (if p = [] then ''/''
      else
        (let p' = (if hd p \<noteq> CHR ''/'' then CHR ''/'' # p else p);
             np = path_Clean p'
         in if last p' = CHR ''/'' \<and> np \<noteq> ''/'' then np @ ''/'' else np))"

definition http_NotFound :: "ResponseWriter \<Rightarrow> ResponseWriter" where
  "http_NotFound rw =
     rw @ [Header_Set ''Content-Type'' ''text/plain; charset=utf-8'',
           Header_Set ''X-Content-Type-Options'' ''nosniff'',
           WriteHeader http_StatusNotFound,
           Write (Raw (''404 page not found'' @ [CHR 0x0A]))]"

definition ServeHTTP :: "Route list \<Rightarrow> HandlerFunc" where
  "ServeHTTP router r s =
     (if cleanPath (Path r) \<noteq> Path r
      then Some (s\<lparr>writer := writer s @
                         [Header_Set ''Location'' (URL_String r (cleanPath (Path r))),
                          WriteHeader http_StatusMovedPermanently]\<rparr>)
      else
        (case Router_Match router r False of
           Matched rt vars \<Rightarrow> handler rt (r\<lparr>Vars := vars\<rparr>) s
         | MethodMismatch \<Rightarrow>
             Some (s\<lparr>writer := writer s @ [WriteHeader http_StatusMethodNotAllowed]\<rparr>)
         | NotFound \<Rightarrow> Some (s\<lparr>writer := http_NotFound (writer s)\<rparr>)))"

section \<open>Start-up\<close>

text \<open>
  The constructors of the two client libraries, as far as \<open>New\<close> depends on them.
  \<^verbatim>\<open>oauth2.NewClient\<close> returns the default client of the context for a nil token source
  and otherwise a new client whose transport draws from the source;
  \<^verbatim>\<open>github.NewClient\<close> puts a default client in place of a nil one and returns a new API
  client around it. Neither inspects the token or sends anything over the network.
  \<open>remote\<close> stands for the remote service: what it answers to calls that arrive
  through the given HTTP client.
\<close>

datatype Token = Token (AccessToken: string)

datatype TokenSource = StaticTokenSource Token

datatype http_Client = DefaultClient | OAuthClient TokenSource

definition oauth2_NewClient :: "ctx \<Rightarrow> TokenSource option \<Rightarrow> http_Client option" where
  "oauth2_NewClient c src =
     (case src of None \<Rightarrow> Some DefaultClient | Some ts \<Rightarrow> Some (OAuthClient ts))"

definition github_NewClient ::
  "(http_Client \<Rightarrow> github_Client) \<Rightarrow> http_Client option \<Rightarrow> github_Client option" where
  "github_NewClient remote httpClient =
     (let hc = (case httpClient of None \<Rightarrow> DefaultClient | Some h \<Rightarrow> h)
      in Some (remote hc))"

definition New ::
  "(http_Client \<Rightarrow> github_Client) \<Rightarrow> string \<Rightarrow> datastore option \<times> error option" where
  "New remote authToken =
     (let c = Background;
          ts = StaticTokenSource (Token authToken);
          tc = oauth2_NewClient c (Some ts)
      in if tc = None then (None, Some (Err ''Access Token Invalid''))
         else
           (case github_NewClient remote tc of
              None \<Rightarrow> (None, Some (Err ''Error creating Github client''))
            | Some client \<Rightarrow>
                (Some \<lparr>Context = c, Client = Some client, Service = Some (Git client)\<rparr>, None)))"

text \<open>
  \<open>main\<close> up to the point where the server starts to listen: any error, a nil handle or
  a nil client is fatal.
\<close>

datatype startup = Fatal "error option" | ListenAndServe nat "Route list"

definition main :: "(http_Client \<Rightarrow> github_Client) \<Rightarrow> string \<Rightarrow> startup" where
  "main remote token =
     (case New remote token of
        (data, err) \<Rightarrow>
          (case data of
             None \<Rightarrow> Fatal err
           | Some d \<Rightarrow>
               if err \<noteq> None \<or> Client d = None then Fatal err
               else ListenAndServe port (NewRouter d)))"

section \<open>Auxiliary notions for the properties\<close>

text \<open>The number of times the error writer has answered on a response stream.\<close>

definition error_writes :: "ResponseWriter \<Rightarrow> nat" where
  "error_writes rw =
     length (filter (\<lambda>c. c = WriteHeader http_StatusInternalServerError) rw)"

text \<open>The comment that \<open>PullComment\<close> builds for a request and a resolved user.\<close>

definition pull_request_comment :: "Request \<Rightarrow> User option \<Rightarrow> PullRequestComment" where
  "pull_request_comment r user =
     \<lparr>PC_ID = None, PC_Body = Some pull_msg, PC_Path = Some (mux_Vars r ''path''),
      PC_Position = Some (fst (Atoi (mux_Vars r ''position''))),
      PC_CommitID = Some (mux_Vars r ''commit''), PC_User = user\<rparr>"

text \<open>
  A remote side for the concrete scenarios: the user \<^verbatim>\<open>octocat\<close> exists and has eight
  repositories on the first page, every other name is unknown, and no comment can be
  created.
\<close>

definition octocat :: User where
  "octocat = User ''octocat'' 583231"

definition not_found :: error where
  "not_found = Err ''not found''"

definition example_client :: github_Client where
  "example_client =
     \<lparr>Repositories_List =
        (\<lambda>owner. if owner = ''octocat'' then (replicate 8 (Repository ''hello''), None)
                  else ([], Some not_found)),
      Users_Get =
        (\<lambda>login. if login = ''octocat'' then (Some octocat, None) else (None, Some not_found)),
      Repositories_CreateComment = (\<lambda>owner repo commit c. (None, Some not_found)),
      PullRequests_CreateComment = (\<lambda>owner repo number c. (None, Some not_found)),
      Git = GitService\<rparr>"

definition example_data :: datastore where
  "example_data = \<lparr>Context = Background, Client = Some example_client, Service = Some GitService\<rparr>"

definition request_with :: "(string \<times> string) list \<Rightarrow> Request" where
  "request_with vars = \<lparr>Method = [], Path = [], Vars = map_of vars, URL_String = (\<lambda>p. p)\<rparr>"

section \<open>What each step of a handler does\<close>

lemma WriteError_Some:
  "WriteError rw (Some e) =
     (rw @ [WriteHeader http_StatusInternalServerError, Write (Json (error_envelope e))], True)"
  by (simp add: WriteError_def Encode_def)

lemma WriteError_None: "WriteError rw None = (rw, False)"
  by (simp add: WriteError_def)

lemma response_nothing_written:
  "response [] = \<lparr>StatusCode = 200, Header = Map.empty, Body = []\<rparr>"
  by (simp add: response_def finishRequest_def rw_init_def do_WriteHeader_def http_StatusOK_def)

lemma response_error_written:
  "response [WriteHeader http_StatusInternalServerError, Write (Json v)] =
     \<lparr>StatusCode = 500, Header = Map.empty, Body = [Json v]\<rparr>"
  by (simp add: response_def finishRequest_def rw_init_def do_WriteHeader_def
      http_StatusInternalServerError_def)

lemma response_error_appended:
  assumes "\<not> wroteHeader (foldl rw_step rw_init rw)"
  shows "response (rw @ [WriteHeader http_StatusInternalServerError, Write (Json v)]) =
     \<lparr>StatusCode = 500, Header = hdr (foldl rw_step rw_init rw),
      Body = Body (response rw) @ [Json v]\<rparr>"
  using assms
  by (simp add: response_def finishRequest_def do_WriteHeader_def
      http_StatusInternalServerError_def Let_def)

lemma response_json_written:
  "response [Header_Set k v, Write (Json j)] =
     \<lparr>StatusCode = 200, Header = [k \<mapsto> [v]], Body = [Json j]\<rparr>"
  by (simp add: response_def finishRequest_def rw_init_def do_WriteHeader_def http_StatusOK_def)

lemma GetCount_listed:
  assumes "Client data = Some c"
    and "Repositories_List c (mux_Vars r ''owner'') = (repos, None)"
  shows "GetCount data r s =
     Some (s\<lparr>writer := writer s @
                 [Header_Set ''Content-Type'' ''application/json; charset=utf-8'',
                  Write (Json (JInt (int (length repos))))],
             remote_log := remote_log s @ [Call_Repositories_List (mux_Vars r ''owner'')]\<rparr>)"
  using assms
  by (simp add: GetCount_def Let_def log_call_def WriteError_None Encode_def)

lemma GetCount_failed:
  assumes "Client data = Some c"
    and "Repositories_List c (mux_Vars r ''owner'') = (repos, Some e)"
  shows "GetCount data r s =
     Some (s\<lparr>writer := writer s @
                 [WriteHeader http_StatusInternalServerError, Write (Json (error_envelope e))],
             remote_log := remote_log s @ [Call_Repositories_List (mux_Vars r ''owner'')]\<rparr>)"
  using assms
  by (simp add: GetCount_def Let_def log_call_def WriteError_Some)

lemma CommitComment_user_failed:
  assumes "Client data = Some c"
    and "Users_Get c (mux_Vars r ''owner'') = (user, Some e)"
  shows "CommitComment data r s =
     Some (s\<lparr>writer := writer s @
                 [WriteHeader http_StatusInternalServerError, Write (Json (error_envelope e))],
             remote_log := remote_log s @ [Call_Users_Get (mux_Vars r ''owner'')]\<rparr>)"
  using assms
  by (simp add: CommitComment_def Let_def log_call_def WriteError_Some)

lemma CommitComment_user_found:
  assumes "Client data = Some c"
    and "Users_Get c (mux_Vars r ''owner'') = (user, None)"
  shows "CommitComment data r s =
     Some (s\<lparr>remote_log := remote_log s @
                 [Call_Users_Get (mux_Vars r ''owner''),
                  Call_Repositories_CreateComment (mux_Vars r ''owner'') (mux_Vars r ''repo'')
                    (mux_Vars r ''commit'')
                    \<lparr>RC_ID = None, RC_CommitID = Some (mux_Vars r ''commit''), RC_User = user,
                     RC_Body = Some commit_msg, RC_Path = None, RC_Position = Some 1\<rparr>]\<rparr>)"
  using assms
  by (simp add: CommitComment_def Let_def log_call_def WriteError_None)

lemma PullComment_user_failed:
  assumes "Client data = Some c"
    and "Users_Get c (mux_Vars r ''owner'') = (user, Some e)"
  shows "PullComment data r s =
     Some (s\<lparr>writer := writer s @
                 [WriteHeader http_StatusInternalServerError, Write (Json (error_envelope e))],
             remote_log := remote_log s @ [Call_Users_Get (mux_Vars r ''owner'')]\<rparr>)"
  using assms
  by (simp add: PullComment_def Let_def log_call_def WriteError_Some case_prod_beta)

lemma PullComment_user_found:
  assumes "Client data = Some c"
    and "Users_Get c (mux_Vars r ''owner'') = (user, None)"
    and "PullRequests_CreateComment c (mux_Vars r ''owner'') (mux_Vars r ''repo'')
           (fst (Atoi (mux_Vars r ''number''))) (pull_request_comment r user) = (cmt, err)"
  shows "PullComment data r s =
     Some (s\<lparr>remote_log := remote_log s @
                 [Call_Users_Get (mux_Vars r ''owner''),
                  Call_PullRequests_CreateComment (mux_Vars r ''owner'') (mux_Vars r ''repo'')
                    (fst (Atoi (mux_Vars r ''number''))) (pull_request_comment r user)],
             stdout := stdout s @
                 (case err of None \<Rightarrow> [] | Some e \<Rightarrow> [Println_error e]) @ [Println_comment cmt]\<rparr>)"
  using assms
  by (simp add: PullComment_def Let_def log_call_def println_def WriteError_None
      pull_request_comment_def case_prod_beta split: option.splits)

lemma GetCount_error_writes:
  "GetCount data r fresh = Some s' \<Longrightarrow> error_writes (writer s') \<le> 1"
  by (auto simp: GetCount_def fresh_def log_call_def WriteError_def Encode_def error_writes_def
      Let_def split: option.splits prod.splits if_splits)

lemma CommitComment_error_writes:
  "CommitComment data r fresh = Some s' \<Longrightarrow> error_writes (writer s') \<le> 1"
  by (auto simp: CommitComment_def fresh_def log_call_def WriteError_def Encode_def
      error_writes_def Let_def split: option.splits prod.splits if_splits)

lemma PullComment_error_writes:
  "PullComment data r fresh = Some s' \<Longrightarrow> error_writes (writer s') \<le> 1"
  by (auto simp: PullComment_def fresh_def log_call_def println_def WriteError_def Encode_def
      error_writes_def Let_def split: option.splits prod.splits if_splits)

lemma mux_Vars_request_with [simp]:
  "mux_Vars (request_with vars) k = (case map_of vars k of None \<Rightarrow> [] | Some v \<Rightarrow> v)"
  by (simp add: mux_Vars_def request_with_def)

lemma example_Client [simp]: "Client example_data = Some example_client"
  by (simp add: example_data_def)

lemma example_Repositories_List [simp]:
  "Repositories_List example_client owner =
     (if owner = ''octocat'' then (replicate 8 (Repository ''hello''), None)
      else ([], Some not_found))"
  by (simp add: example_client_def)

lemma example_Users_Get [simp]:
  "Users_Get example_client login =
     (if login = ''octocat'' then (Some octocat, None) else (None, Some not_found))"
  by (simp add: example_client_def)

lemma example_PullRequests_CreateComment [simp]:
  "PullRequests_CreateComment example_client owner repo number c = (None, Some not_found)"
  by (simp add: example_client_def)

section \<open>The repository count\<close>

text \<open>
  C1. For every owner: when the remote listing succeeds and returns a first page of N
  repositories, the count handler answers with status 200, the content type
  \<^verbatim>\<open>application/json; charset=utf-8\<close>, and a body that is the JSON integer N.
\<close>

theorem GetCount_success:
  assumes "Client data = Some c"
    and "Repositories_List c (mux_Vars r ''owner'') = (repos, None)"
  shows "\<exists>s'. GetCount data r fresh = Some s' \<and>
           response (writer s') =
             \<lparr>StatusCode = 200,
              Header = [''Content-Type'' \<mapsto> [''application/json; charset=utf-8'']],
              Body = [Json (JInt (int (length repos)))]\<rparr>"
  using GetCount_listed [OF assms, of fresh]
  by (simp add: fresh_def response_json_written)

text \<open>
  The scenario of the specification: \<^verbatim>\<open>octocat\<close> has eight repositories on page one,
  and the body is \<^verbatim>\<open>8\<close>.
\<close>

theorem GetCount_success_witness:
  "Client example_data = Some example_client \<and>
   Repositories_List example_client (mux_Vars (request_with [(''owner'', ''octocat'')]) ''owner'') =
     (replicate 8 (Repository ''hello''), None) \<and>
   (\<exists>s'. GetCount example_data (request_with [(''owner'', ''octocat'')]) fresh = Some s' \<and>
      response (writer s') =
        \<lparr>StatusCode = 200,
         Header = [''Content-Type'' \<mapsto> [''application/json; charset=utf-8'']],
         Body = [Json (JInt 8)]\<rparr>)"
  using GetCount_success [of example_data example_client
      "request_with [(''owner'', ''octocat'')]" "replicate 8 (Repository ''hello'')"]
  by simp

text \<open>
  C4. For every owner: when the remote listing fails, the count handler answers with
  status 500 and a JSON object with the key \<^verbatim>\<open>error\<close>, and returns at once: the calls
  on the response stream are those of the error writer alone, so no content type is
  set and no count is written.
\<close>

theorem GetCount_failure:
  assumes "Client data = Some c"
    and "Repositories_List c (mux_Vars r ''owner'') = (repos, Some e)"
  shows "\<exists>s'. GetCount data r fresh = Some s' \<and>
           writer s' = [WriteHeader 500, Write (Json (JObject [(''error'', JString (Error e))]))] \<and>
           response (writer s') =
             \<lparr>StatusCode = 500, Header = Map.empty,
              Body = [Json (JObject [(''error'', JString (Error e))])]\<rparr>"
  using GetCount_failed [OF assms, of fresh]
  by (simp add: fresh_def response_error_written error_envelope_def
      http_StatusInternalServerError_def [symmetric])

theorem GetCount_failure_witness:
  "Client example_data = Some example_client \<and>
   Repositories_List example_client (mux_Vars (request_with [(''owner'', ''nobody'')]) ''owner'') =
     ([], Some (Err ''not found'')) \<and>
   (\<exists>s'. GetCount example_data (request_with [(''owner'', ''nobody'')]) fresh = Some s' \<and>
      writer s' = [WriteHeader 500, Write (Json (JObject [(''error'', JString ''not found'')]))] \<and>
      response (writer s') =
        \<lparr>StatusCode = 500, Header = Map.empty,
         Body = [Json (JObject [(''error'', JString ''not found'')])]\<rparr>)"
  using GetCount_failure [of example_data example_client
      "request_with [(''owner'', ''nobody'')]" "[]" "Err ''not found''"]
  by (simp add: not_found_def)

section \<open>The comment handlers\<close>

text \<open>
  C2. For both comment handlers: whenever the user of the path owner is resolved, the
  handler writes nothing on the response stream, so the answer is status 200 with an
  empty body. The theorem holds for every client, hence for every result of the
  comment-creation call: its error never shows in the response.
\<close>

theorem comment_handlers_answer_200:
  assumes "Client data = Some c"
    and "Users_Get c (mux_Vars r ''owner'') = (user, None)"
  shows "(\<exists>s'. CommitComment data r fresh = Some s' \<and> writer s' = [] \<and>
            response (writer s') = \<lparr>StatusCode = 200, Header = Map.empty, Body = []\<rparr>) \<and>
         (\<exists>s'. PullComment data r fresh = Some s' \<and> writer s' = [] \<and>
            response (writer s') = \<lparr>StatusCode = 200, Header = Map.empty, Body = []\<rparr>)"
proof
  show "\<exists>s'. CommitComment data r fresh = Some s' \<and> writer s' = [] \<and>
          response (writer s') = \<lparr>StatusCode = 200, Header = Map.empty, Body = []\<rparr>"
    using CommitComment_user_found [OF assms, of fresh]
    by (simp add: fresh_def response_nothing_written)
next
  obtain cmt err where created:
    "PullRequests_CreateComment c (mux_Vars r ''owner'') (mux_Vars r ''repo'')
       (fst (Atoi (mux_Vars r ''number''))) (pull_request_comment r user) = (cmt, err)"
    by (cases "PullRequests_CreateComment c (mux_Vars r ''owner'') (mux_Vars r ''repo'')
       (fst (Atoi (mux_Vars r ''number''))) (pull_request_comment r user)")
  show "\<exists>s'. PullComment data r fresh = Some s' \<and> writer s' = [] \<and>
          response (writer s') = \<lparr>StatusCode = 200, Header = Map.empty, Body = []\<rparr>"
    using PullComment_user_found [OF assms created, of fresh]
    by (simp add: fresh_def response_nothing_written)
qed

text \<open>
  In the example the comment-creation call fails with "not found" for both handlers,
  and the answer is 200 with an empty body all the same.
\<close>

theorem comment_handlers_answer_200_witness:
  "Client example_data = Some example_client \<and>
   Users_Get example_client
     (mux_Vars (request_with [(''owner'', ''octocat''), (''repo'', ''myrepo''),
        (''commit'', ''abc123'')]) ''owner'') = (Some octocat, None) \<and>
   Repositories_CreateComment example_client ''octocat'' ''myrepo'' ''abc123''
     \<lparr>RC_ID = None, RC_CommitID = Some ''abc123'', RC_User = Some octocat,
      RC_Body = Some commit_msg, RC_Path = None, RC_Position = Some 1\<rparr> =
     (None, Some not_found) \<and>
   (\<exists>s'. CommitComment example_data
            (request_with [(''owner'', ''octocat''), (''repo'', ''myrepo''),
               (''commit'', ''abc123'')]) fresh = Some s' \<and>
      response (writer s') = \<lparr>StatusCode = 200, Header = Map.empty, Body = []\<rparr>) \<and>
   (\<exists>s'. PullComment example_data
            (request_with [(''owner'', ''octocat''), (''repo'', ''myrepo''),
               (''commit'', ''abc123'')]) fresh = Some s' \<and>
      response (writer s') = \<lparr>StatusCode = 200, Header = Map.empty, Body = []\<rparr>)"
  using comment_handlers_answer_200 [of example_data example_client
      "request_with [(''owner'', ''octocat''), (''repo'', ''myrepo''), (''commit'', ''abc123'')]"
      "Some octocat"]
  by (auto simp: example_client_def)

text \<open>
  C3. For both comment handlers: whenever resolving the user of the path owner fails,
  the answer is status 500 with a JSON body with the key \<^verbatim>\<open>error\<close>, and the only call
  sent to the remote API is the user lookup: no comment is built or submitted.
\<close>

theorem comment_handlers_user_failure:
  assumes "Client data = Some c"
    and "Users_Get c (mux_Vars r ''owner'') = (user, Some e)"
  shows "(\<exists>s'. CommitComment data r fresh = Some s' \<and>
            response (writer s') =
              \<lparr>StatusCode = 500, Header = Map.empty,
               Body = [Json (JObject [(''error'', JString (Error e))])]\<rparr> \<and>
            remote_log s' = [Call_Users_Get (mux_Vars r ''owner'')]) \<and>
         (\<exists>s'. PullComment data r fresh = Some s' \<and>
            response (writer s') =
              \<lparr>StatusCode = 500, Header = Map.empty,
               Body = [Json (JObject [(''error'', JString (Error e))])]\<rparr> \<and>
            remote_log s' = [Call_Users_Get (mux_Vars r ''owner'')])"
  using CommitComment_user_failed [OF assms, of fresh] PullComment_user_failed [OF assms, of fresh]
  by (simp add: fresh_def response_error_written error_envelope_def)

text \<open>
  The scenario of the specification: the lookup of the owner fails with "not found",
  and the body is \<^verbatim>\<open>{"error":"not found"}\<close>.
\<close>

theorem comment_handlers_user_failure_witness:
  "Client example_data = Some example_client \<and>
   Users_Get example_client
     (mux_Vars (request_with [(''owner'', ''nobody''), (''repo'', ''myrepo''),
        (''commit'', ''abc123'')]) ''owner'') = (None, Some (Err ''not found'')) \<and>
   (\<exists>s'. CommitComment example_data
            (request_with [(''owner'', ''nobody''), (''repo'', ''myrepo''),
               (''commit'', ''abc123'')]) fresh = Some s' \<and>
      response (writer s') =
        \<lparr>StatusCode = 500, Header = Map.empty,
         Body = [Json (JObject [(''error'', JString ''not found'')])]\<rparr> \<and>
      remote_log s' = [Call_Users_Get ''nobody'']) \<and>
   (\<exists>s'. PullComment example_data
            (request_with [(''owner'', ''nobody''), (''repo'', ''myrepo''),
               (''commit'', ''abc123'')]) fresh = Some s' \<and>
      response (writer s') =
        \<lparr>StatusCode = 500, Header = Map.empty,
         Body = [Json (JObject [(''error'', JString ''not found'')])]\<rparr> \<and>
      remote_log s' = [Call_Users_Get ''nobody''])"
  using comment_handlers_user_failure [of example_data example_client
      "request_with [(''owner'', ''nobody''), (''repo'', ''myrepo''), (''commit'', ''abc123'')]"
      None "Err ''not found''"]
  by (simp add: not_found_def)

text \<open>
  C9. In the commit-comment handler, when the user is resolved, the comment submitted
  to the remote API for owner/repo at the commit has exactly: the placeholder message
  as body, position 1, the resolved user as author, and the commit id of the path; no
  other field is set.
\<close>

theorem CommitComment_submits:
  assumes "Client data = Some c"
    and "Users_Get c (mux_Vars r ''owner'') = (user, None)"
  shows "\<exists>s'. CommitComment data r fresh = Some s' \<and>
           remote_log s' =
             [Call_Users_Get (mux_Vars r ''owner''),
              Call_Repositories_CreateComment (mux_Vars r ''owner'') (mux_Vars r ''repo'')
                (mux_Vars r ''commit'')
                \<lparr>RC_ID = None, RC_CommitID = Some (mux_Vars r ''commit''), RC_User = user,
                 RC_Body =
                   Some ''Commit message... replace me with message taken from request body.'',
                 RC_Path = None, RC_Position = Some 1\<rparr>]"
  using CommitComment_user_found [OF assms, of fresh]
  by (simp add: fresh_def commit_msg_def)

theorem CommitComment_submits_witness:
  "Client example_data = Some example_client \<and>
   Users_Get example_client
     (mux_Vars (request_with [(''owner'', ''octocat''), (''repo'', ''myrepo''),
        (''commit'', ''abc123'')]) ''owner'') = (Some octocat, None) \<and>
   (\<exists>s'. CommitComment example_data
            (request_with [(''owner'', ''octocat''), (''repo'', ''myrepo''),
               (''commit'', ''abc123'')]) fresh = Some s' \<and>
      remote_log s' =
        [Call_Users_Get ''octocat'',
         Call_Repositories_CreateComment ''octocat'' ''myrepo'' ''abc123''
           \<lparr>RC_ID = None, RC_CommitID = Some ''abc123'', RC_User = Some octocat,
            RC_Body =
              Some ''Commit message... replace me with message taken from request body.'',
            RC_Path = None, RC_Position = Some 1\<rparr>])"
  using CommitComment_submits [of example_data example_client
      "request_with [(''owner'', ''octocat''), (''repo'', ''myrepo''), (''commit'', ''abc123'')]"
      "Some octocat"]
  by simp

section \<open>The error writer\<close>

text \<open>
  C5. \<open>WriteError\<close> on a response stream and an error value. A non-nil error: it calls
  \<open>WriteHeader 500\<close>, encodes the object with the key \<^verbatim>\<open>error\<close> and the error's message
  as the JSON body, and returns true; on a stream on which no header has been written,
  which is the state of the stream wherever a handler passes a non-nil error, the
  status of the response is then 500 and the object is appended to the body. The nil
  error: the stream is unchanged and the result is false. And a single run of any of
  the three handlers makes the error writer answer at most once.
\<close>

theorem WriteError_contract:
  "WriteError rw (Some e) =
     (rw @ [WriteHeader 500, Write (Json (JObject [(''error'', JString (Error e))]))], True) \<and>
   (\<not> wroteHeader (foldl rw_step rw_init rw) \<longrightarrow>
      StatusCode (response (fst (WriteError rw (Some e)))) = 500 \<and>
      Body (response (fst (WriteError rw (Some e)))) =
        Body (response rw) @ [Json (JObject [(''error'', JString (Error e))])]) \<and>
   WriteError rw None = (rw, False) \<and>
   (\<forall>s'. GetCount data r fresh = Some s' \<longrightarrow> error_writes (writer s') \<le> 1) \<and>
   (\<forall>s'. CommitComment data r fresh = Some s' \<longrightarrow> error_writes (writer s') \<le> 1) \<and>
   (\<forall>s'. PullComment data r fresh = Some s' \<longrightarrow> error_writes (writer s') \<le> 1)"
proof -
  have "WriteError rw (Some e) =
     (rw @ [WriteHeader 500, Write (Json (JObject [(''error'', JString (Error e))]))], True)"
    by (simp add: WriteError_Some error_envelope_def http_StatusInternalServerError_def)
  moreover have "\<not> wroteHeader (foldl rw_step rw_init rw) \<longrightarrow>
      StatusCode (response (fst (WriteError rw (Some e)))) = 500 \<and>
      Body (response (fst (WriteError rw (Some e)))) =
        Body (response rw) @ [Json (JObject [(''error'', JString (Error e))])]"
    by (simp add: WriteError_Some response_error_appended error_envelope_def)
  moreover have "WriteError rw None = (rw, False)"
    by (rule WriteError_None)
  ultimately show ?thesis
    using GetCount_error_writes CommitComment_error_writes PullComment_error_writes
    by blast
qed

theorem WriteError_contract_witness:
  "\<not> wroteHeader (foldl rw_step rw_init [Header_Set ''X-Request'' ''1'']) \<and>
   StatusCode (response (fst (WriteError [Header_Set ''X-Request'' ''1'']
     (Some (Err ''not found''))))) = 500 \<and>
   Body (response (fst (WriteError [Header_Set ''X-Request'' ''1'']
     (Some (Err ''not found''))))) = [Json (JObject [(''error'', JString ''not found'')])] \<and>
   GetCount example_data (request_with [(''owner'', ''nobody'')]) fresh =
     Some \<lparr>writer = [WriteHeader 500, Write (Json (JObject [(''error'', JString ''not found'')]))],
           remote_log = [Call_Repositories_List ''nobody''], stdout = []\<rparr> \<and>
   error_writes [WriteHeader 500, Write (Json (JObject [(''error'', JString ''not found'')]))] \<le> 1 \<and>
   CommitComment example_data (request_with [(''owner'', ''nobody'')]) fresh =
     Some \<lparr>writer = [WriteHeader 500, Write (Json (JObject [(''error'', JString ''not found'')]))],
           remote_log = [Call_Users_Get ''nobody''], stdout = []\<rparr> \<and>
   PullComment example_data (request_with [(''owner'', ''nobody'')]) fresh =
     Some \<lparr>writer = [WriteHeader 500, Write (Json (JObject [(''error'', JString ''not found'')]))],
           remote_log = [Call_Users_Get ''nobody''], stdout = []\<rparr>"
proof -
  have no_header: "\<not> wroteHeader (foldl rw_step rw_init [Header_Set ''X-Request'' ''1''])"
    by (simp add: rw_init_def)
  have body_before: "Body (response [Header_Set ''X-Request'' ''1'']) = []"
    by (simp add: response_def finishRequest_def rw_init_def do_WriteHeader_def)
  have counted: "GetCount example_data (request_with [(''owner'', ''nobody'')]) fresh =
     Some \<lparr>writer = [WriteHeader 500, Write (Json (JObject [(''error'', JString ''not found'')]))],
           remote_log = [Call_Repositories_List ''nobody''], stdout = []\<rparr>"
    using GetCount_failed [of example_data example_client
        "request_with [(''owner'', ''nobody'')]" "[]" not_found fresh]
    by (simp add: fresh_def not_found_def error_envelope_def http_StatusInternalServerError_def)
  have commit: "CommitComment example_data (request_with [(''owner'', ''nobody'')]) fresh =
     Some \<lparr>writer = [WriteHeader 500, Write (Json (JObject [(''error'', JString ''not found'')]))],
           remote_log = [Call_Users_Get ''nobody''], stdout = []\<rparr>"
    using CommitComment_user_failed [of example_data example_client
        "request_with [(''owner'', ''nobody'')]" None not_found fresh]
    by (simp add: fresh_def not_found_def error_envelope_def http_StatusInternalServerError_def)
  have pull: "PullComment example_data (request_with [(''owner'', ''nobody'')]) fresh =
     Some \<lparr>writer = [WriteHeader 500, Write (Json (JObject [(''error'', JString ''not found'')]))],
           remote_log = [Call_Users_Get ''nobody''], stdout = []\<rparr>"
    using PullComment_user_failed [of example_data example_client
        "request_with [(''owner'', ''nobody'')]" None not_found fresh]
    by (simp add: fresh_def not_found_def error_envelope_def http_StatusInternalServerError_def)
  note contract = WriteError_contract [of "[Header_Set ''X-Request'' ''1'']" "Err ''not found''"
      example_data "request_with [(''owner'', ''nobody'')]", unfolded error.sel]
  from contract no_header
  have answered: "StatusCode (response (fst (WriteError [Header_Set ''X-Request'' ''1'']
      (Some (Err ''not found''))))) = 500"
    and body_after: "Body (response (fst (WriteError [Header_Set ''X-Request'' ''1'']
      (Some (Err ''not found''))))) =
        Body (response [Header_Set ''X-Request'' ''1'']) @
          [Json (JObject [(''error'', JString ''not found'')])]"
    by blast+
  from contract counted
  have once: "error_writes
      [WriteHeader 500, Write (Json (JObject [(''error'', JString ''not found'')]))] \<le> 1"
    by fastforce
  show ?thesis
    using no_header answered body_after body_before counted commit pull once
    by (intro conjI) simp_all
qed

section \<open>The numeric path variables\<close>

lemma ParseUint_loop_digits:
  "list_all is_digit s \<Longrightarrow> snd (ParseUint_loop n s) \<noteq> Some ErrSyntax"
  by (induction n s rule: ParseUint_loop.induct) (auto simp: Let_def split: if_splits)

lemma Atoi_syntax: "snd (Atoi s) = Some ErrSyntax \<Longrightarrow> fst (Atoi s) = 0"
  by (auto simp: Atoi_def ParseInt_def Let_def case_prod_beta split: if_splits)

lemma Atoi_range:
  "snd (Atoi s) = Some ErrRange \<Longrightarrow>
     fst (Atoi s) = (if hd s = CHR ''-'' then - (2 ^ 63) else 2 ^ 63 - 1)"
  by (auto simp: Atoi_def ParseInt_def Let_def case_prod_beta IntSize_def split: if_splits)

lemma digit_no_sign: "is_digit c \<Longrightarrow> c \<noteq> CHR ''+'' \<and> c \<noteq> CHR ''-''"
  by (auto simp: is_digit_def)

text \<open>
  On the strings that the pattern \<^verbatim>\<open>[0-9]+\<close> of the route lets through, the only parse
  error is the range error, and the value is then the largest 64-bit integer.
\<close>

lemma Atoi_digits:
  assumes "matches Digits d" and "snd (Atoi d) \<noteq> None"
  shows "Atoi d = (2 ^ 63 - 1, Some ErrRange)"
proof -
  from assms(1) obtain c cs where d: "d = c # cs" and c: "is_digit c"
    and cs: "list_all is_digit cs"
    by (cases d) auto
  from c have sign: "c \<noteq> CHR ''+''" "c \<noteq> CHR ''-''"
    using digit_no_sign by blast+
  have "snd (ParseUint_loop 0 d) \<noteq> Some ErrSyntax"
    using ParseUint_loop_digits [of d 0] c cs d by simp
  then have err: "snd (ParseUint d) = None \<or> snd (ParseUint d) = Some ErrRange"
    using d by (cases "snd (ParseUint_loop 0 d)") (auto simp: ParseUint_def intro: NumError.exhaust)
  have "Atoi d =
     (if fst (ParseUint d) \<ge> 2 ^ 63 then (2 ^ 63 - 1, Some ErrRange)
      else (int (fst (ParseUint d)), None))"
    using err d sign
    by (auto simp: Atoi_def ParseInt_def Let_def case_prod_beta IntSize_def)
  with assms(2) show ?thesis
    by (simp split: if_splits)
qed

lemmas Atoi_eval =
  Atoi_def ParseInt_def ParseUint_def Let_def is_digit_def digit_val_def maxUint64_def IntSize_def

lemma Atoi_too_big: "Atoi ''9223372036854775808'' = (9223372036854775807, Some ErrRange)"
  by (simp add: Atoi_eval)

lemma Atoi_too_small: "Atoi ''-9223372036854775809'' = (- 9223372036854775808, Some ErrRange)"
  by (simp add: Atoi_eval)

lemma Atoi_4x: "Atoi ''4x'' = (0, Some ErrSyntax)"
  by (simp add: Atoi_eval)

lemma Atoi_5: "Atoi ''5'' = (5, None)"
  by (simp add: Atoi_eval)

lemma Atoi_42: "Atoi ''42'' = (42, None)"
  by (simp add: Atoi_eval)

text \<open>
  C7, as amended. In the pull-comment handler the two numeric path variables are parsed
  with \<open>Atoi\<close> and the error is dropped. On a syntax error the value is 0. On a range
  error it is not 0 but the bound of the 64-bit integers on the side of the sign:
  \<open>- (2 ^ 63)\<close> for a string that starts with a minus sign, \<open>2 ^ 63 - 1\<close> for any other; for a
  string of digits, which is all the route lets through, a parse error is always the
  range error and the value is \<open>2 ^ 63 - 1\<close>. Whatever the two parses return, the
  handler goes on with the values and submits the comment once the user is resolved.
\<close>

theorem PullComment_parse_errors:
  "(snd (Atoi s) = Some ErrSyntax \<longrightarrow> fst (Atoi s) = 0) \<and>
   (snd (Atoi t) = Some ErrRange \<longrightarrow>
      fst (Atoi t) = (if hd t = CHR ''-'' then - (2 ^ 63) else 2 ^ 63 - 1)) \<and>
   (matches Digits d \<and> snd (Atoi d) \<noteq> None \<longrightarrow> Atoi d = (2 ^ 63 - 1, Some ErrRange)) \<and>
   (Client data = Some c \<and> Users_Get c (mux_Vars r ''owner'') = (user, None) \<longrightarrow>
      (\<exists>s'. PullComment data r fresh = Some s' \<and>
         remote_log s' =
           [Call_Users_Get (mux_Vars r ''owner''),
            Call_PullRequests_CreateComment (mux_Vars r ''owner'') (mux_Vars r ''repo'')
              (fst (Atoi (mux_Vars r ''number'')))
              \<lparr>PC_ID = None, PC_Body = Some ''hard coded comment message'',
               PC_Path = Some (mux_Vars r ''path''),
               PC_Position = Some (fst (Atoi (mux_Vars r ''position''))),
               PC_CommitID = Some (mux_Vars r ''commit''), PC_User = user\<rparr>]))"
proof (intro conjI impI)
  assume "snd (Atoi s) = Some ErrSyntax"
  then show "fst (Atoi s) = 0" by (rule Atoi_syntax)
next
  assume "snd (Atoi t) = Some ErrRange"
  then show "fst (Atoi t) = (if hd t = CHR ''-'' then - (2 ^ 63) else 2 ^ 63 - 1)"
    by (rule Atoi_range)
next
  assume "matches Digits d \<and> snd (Atoi d) \<noteq> None"
  then show "Atoi d = (2 ^ 63 - 1, Some ErrRange)" using Atoi_digits by blast
next
  assume found: "Client data = Some c \<and> Users_Get c (mux_Vars r ''owner'') = (user, None)"
  obtain cmt err where created:
    "PullRequests_CreateComment c (mux_Vars r ''owner'') (mux_Vars r ''repo'')
       (fst (Atoi (mux_Vars r ''number''))) (pull_request_comment r user) = (cmt, err)"
    by (cases "PullRequests_CreateComment c (mux_Vars r ''owner'') (mux_Vars r ''repo'')
       (fst (Atoi (mux_Vars r ''number''))) (pull_request_comment r user)")
  show "\<exists>s'. PullComment data r fresh = Some s' \<and>
         remote_log s' =
           [Call_Users_Get (mux_Vars r ''owner''),
            Call_PullRequests_CreateComment (mux_Vars r ''owner'') (mux_Vars r ''repo'')
              (fst (Atoi (mux_Vars r ''number'')))
              \<lparr>PC_ID = None, PC_Body = Some ''hard coded comment message'',
               PC_Path = Some (mux_Vars r ''path''),
               PC_Position = Some (fst (Atoi (mux_Vars r ''position''))),
               PC_CommitID = Some (mux_Vars r ''commit''), PC_User = user\<rparr>]"
    using PullComment_user_found [OF conjunct1 [OF found] conjunct2 [OF found] created, of fresh]
    by (simp add: fresh_def pull_request_comment_def pull_msg_def)
qed

theorem PullComment_parse_errors_witness:
  "snd (Atoi ''4x'') = Some ErrSyntax \<and> fst (Atoi ''4x'') = 0 \<and>
   snd (Atoi ''-9223372036854775809'') = Some ErrRange \<and>
   fst (Atoi ''-9223372036854775809'') = - (2 ^ 63) \<and>
   matches Digits ''9223372036854775808'' \<and> snd (Atoi ''9223372036854775808'') \<noteq> None \<and>
   Atoi ''9223372036854775808'' = (2 ^ 63 - 1, Some ErrRange) \<and>
   Client example_data = Some example_client \<and>
   Users_Get example_client ''octocat'' = (Some octocat, None) \<and>
   (\<exists>s'. PullComment example_data
            (request_with [(''owner'', ''octocat''), (''number'', ''4x''), (''commit'', ''abc123''),
               (''path'', ''main.go''), (''position'', ''9223372036854775808'')]) fresh = Some s' \<and>
      remote_log s' =
        [Call_Users_Get ''octocat'',
         Call_PullRequests_CreateComment ''octocat'' [] 0
           \<lparr>PC_ID = None, PC_Body = Some ''hard coded comment message'',
            PC_Path = Some ''main.go'', PC_Position = Some 9223372036854775807,
            PC_CommitID = Some ''abc123'', PC_User = Some octocat\<rparr>])"
  using PullComment_parse_errors [of "''4x''" "''-9223372036854775809''" "''9223372036854775808''"
      example_data example_client
      "request_with [(''owner'', ''octocat''), (''number'', ''4x''), (''commit'', ''abc123''),
         (''path'', ''main.go''), (''position'', ''9223372036854775808'')]" "Some octocat"]
  by (simp add: Atoi_too_big Atoi_too_small Atoi_4x is_digit_def)

text \<open>
  That every parse error leaves the value 0 fails on a pull-request number that the
  route admits: nineteen digits that spell \<open>2 ^ 63\<close>. The
  parse reports a range error, and the handler submits the comment for pull request
  \<open>2 ^ 63 - 1\<close>.
\<close>

theorem PullComment_parse_counterexample:
  "matches Digits ''9223372036854775808'' \<and>
   snd (Atoi ''9223372036854775808'') = Some ErrRange \<and>
   fst (Atoi ''9223372036854775808'') = 9223372036854775807 \<and>
   fst (Atoi ''9223372036854775808'') \<noteq> 0 \<and>
   PullComment example_data
     (request_with [(''owner'', ''octocat''), (''number'', ''9223372036854775808''),
        (''commit'', ''abc123''), (''path'', ''main.go''), (''position'', ''5'')]) fresh =
     Some \<lparr>writer = [],
           remote_log =
             [Call_Users_Get ''octocat'',
              Call_PullRequests_CreateComment ''octocat'' [] 9223372036854775807
                \<lparr>PC_ID = None, PC_Body = Some ''hard coded comment message'',
                 PC_Path = Some ''main.go'', PC_Position = Some 5,
                 PC_CommitID = Some ''abc123'', PC_User = Some octocat\<rparr>],
           stdout = [Println_error not_found, Println_comment None]\<rparr>"
  using PullComment_user_found [of example_data example_client
      "request_with [(''owner'', ''octocat''), (''number'', ''9223372036854775808''),
        (''commit'', ''abc123''), (''path'', ''main.go''), (''position'', ''5'')]"
      "Some octocat" None "Some not_found" fresh]
  by (simp add: Atoi_too_big Atoi_5 is_digit_def fresh_def pull_request_comment_def pull_msg_def)

section \<open>Construction of the client handle\<close>

lemma New_result:
  "New remote authToken =
     (Some \<lparr>Context = Background,
            Client = Some (remote (OAuthClient (StaticTokenSource (Token authToken)))),
            Service = Some (Git (remote (OAuthClient (StaticTokenSource (Token authToken)))))\<rparr>,
      None)"
  by (simp add: New_def oauth2_NewClient_def github_NewClient_def Let_def)

text \<open>
  C10. For every token, the empty one included, \<open>New\<close> returns a handle with a client
  and a service and no error: neither of its two error results is ever returned, and
  \<open>main\<close> gets past the check of the handle and starts to serve.
\<close>

theorem New_never_fails:
  "(\<exists>d cl g. New remote authToken = (Some d, None) \<and> Client d = Some cl \<and> Service d = Some g) \<and>
   (\<exists>d cl g. New remote [] = (Some d, None) \<and> Client d = Some cl \<and> Service d = Some g) \<and>
   New remote authToken \<noteq> (None, Some (Err ''Access Token Invalid'')) \<and>
   New remote authToken \<noteq> (None, Some (Err ''Error creating Github client'')) \<and>
   (\<exists>router. main remote authToken = ListenAndServe 5000 router)"
  by (simp add: New_result main_def port_def)

text \<open>The empty token, against the example remote side.\<close>

theorem New_never_fails_witness:
  "New (\<lambda>hc. example_client) [] = (Some example_data, None) \<and>
   Client example_data = Some example_client \<and>
   Service example_data = Some GitService \<and>
   main (\<lambda>hc. example_client) [] = ListenAndServe 5000 (NewRouter example_data)"
  using New_never_fails [of "\<lambda>hc. example_client" "[]"]
  by (simp add: New_result main_def port_def example_data_def example_client_def)

section \<open>Routing\<close>

lemma response_not_found:
  "response (http_NotFound []) =
     \<lparr>StatusCode = 404,
      Header = [''Content-Type'' \<mapsto> [''text/plain; charset=utf-8''],
                ''X-Content-Type-Options'' \<mapsto> [''nosniff'']],
      Body = [Raw (''404 page not found'' @ [CHR 0x0A])]\<rparr>"
  by (simp add: response_def finishRequest_def rw_init_def do_WriteHeader_def http_NotFound_def
      http_StatusNotFound_def http_StatusOK_def)

lemma response_redirect:
  "response [Header_Set ''Location'' p, WriteHeader http_StatusMovedPermanently] =
     \<lparr>StatusCode = 301, Header = [''Location'' \<mapsto> [p]], Body = []\<rparr>"
  by (simp add: response_def finishRequest_def rw_init_def do_WriteHeader_def
      http_StatusMovedPermanently_def)

text \<open>
  A path of seven segments with \<^verbatim>\<open>pulls\<close> in second and \<^verbatim>\<open>comment\<close> in last place can
  only match the pull-comment route, and does not when one of the two numeric segments
  has a character that is not a digit.
\<close>

lemma non_numeric_matches_no_route:
  assumes "split_slash (Path r) =
             [[], owner, ''pulls'', number, commit, pth, position, ''comment'']"
    and "(\<exists>c \<in> set number. \<not> is_digit c) \<or> (\<exists>c \<in> set position. \<not> is_digit c)"
  shows "Router_Match (NewRouter data) r False = NotFound"
  using assms by (auto simp: NewRouter_def match_path_def list_all_iff)

lemma cleanPath_two_segment_file:
  "cleanPath ''/octocat/pulls/42/abc123/src/main.go/5/comment'' =
     ''/octocat/pulls/42/abc123/src/main.go/5/comment''"
  by (simp add: cleanPath_def path_Clean_def)

lemma cleanPath_one_segment_file:
  "cleanPath ''/octocat/pulls/42/abc123/main.go/5/comment'' =
     ''/octocat/pulls/42/abc123/main.go/5/comment''"
  by (simp add: cleanPath_def path_Clean_def)

lemma cleanPath_letter_in_number:
  "cleanPath ''/octocat/pulls/4x/abc123/main.go/5/comment'' =
     ''/octocat/pulls/4x/abc123/main.go/5/comment''"
  by (simp add: cleanPath_def path_Clean_def)

lemma cleanPath_dots_as_number:
  "cleanPath ''/octocat/pulls/../abc123/main.go/5/comment'' = ''/octocat/abc123/main.go/5/comment''"
  by (simp add: cleanPath_def path_Clean_def)

lemma one_segment_file_matches:
  "Router_Match (NewRouter data)
     \<lparr>Method = ''POST'', Path = ''/octocat/pulls/42/abc123/main.go/5/comment'', Vars = vs, URL_String = u\<rparr> False =
   Matched
     \<lparr>methods = [''POST''],
      template = [Var ''owner'' AnySegment, Lit ''pulls'', Var ''number'' Digits,
                  Var ''commit'' AnySegment, Var ''path'' AnySegment,
                  Var ''position'' Digits, Lit ''comment''],
      name = H_PullComment, handler = PullComment data\<rparr>
     (map_of [(''owner'', ''octocat''), (''number'', ''42''), (''commit'', ''abc123''),
              (''path'', ''main.go''), (''position'', ''5'')])"
  by (simp add: NewRouter_def match_path_def is_digit_def)

text \<open>
  C6, as amended. A request whose path has the shape of the pull-comment route, with a
  character that is not a digit in the number or the position segment, never reaches the
  pull-comment handler: no route matches it, and nothing is sent to the remote API.
  When the path is in canonical form the answer is the router's not-found response;
  when it is not, the router answers before it matches, with the redirect to the
  canonical path.
\<close>

theorem non_numeric_never_reaches_PullComment:
  assumes "split_slash (Path r) =
             [[], owner, ''pulls'', number, commit, pth, position, ''comment'']"
    and "(\<exists>c \<in> set number. \<not> is_digit c) \<or> (\<exists>c \<in> set position. \<not> is_digit c)"
  shows "Router_Match (NewRouter data) r False = NotFound \<and>
         (\<exists>s'. ServeHTTP (NewRouter data) r fresh = Some s' \<and>
            remote_log s' = [] \<and> stdout s' = [] \<and>
            response (writer s') =
              (if cleanPath (Path r) = Path r then response (http_NotFound [])
               else \<lparr>StatusCode = 301, Header = [''Location'' \<mapsto> [URL_String r (cleanPath (Path r))]],
                     Body = []\<rparr>)) \<and>
         StatusCode (response (http_NotFound [])) = 404"
  using non_numeric_matches_no_route [OF assms, of data]
  by (simp add: ServeHTTP_def fresh_def response_redirect response_not_found)

theorem non_numeric_never_reaches_PullComment_witness:
  "split_slash ''/octocat/pulls/4x/abc123/main.go/5/comment'' =
     [[], ''octocat'', ''pulls'', ''4x'', ''abc123'', ''main.go'', ''5'', ''comment''] \<and>
   \<not> is_digit CHR ''x'' \<and>
   cleanPath ''/octocat/pulls/4x/abc123/main.go/5/comment'' =
     ''/octocat/pulls/4x/abc123/main.go/5/comment'' \<and>
   (\<exists>s'. ServeHTTP (NewRouter example_data)
            \<lparr>Method = ''POST'', Path = ''/octocat/pulls/4x/abc123/main.go/5/comment'',
             Vars = Map.empty, URL_String = (\<lambda>p. p)\<rparr> fresh = Some s' \<and>
      remote_log s' = [] \<and> StatusCode (response (writer s')) = 404)"
  using non_numeric_never_reaches_PullComment [of
      "\<lparr>Method = ''POST'', Path = ''/octocat/pulls/4x/abc123/main.go/5/comment'',
        Vars = Map.empty, URL_String = (\<lambda>p. p)\<rparr>"
      "''octocat''" "''4x''" "''abc123''" "''main.go''" "''5''" example_data]
  by (auto simp: cleanPath_letter_in_number is_digit_def)

text \<open>
  That every such request gets the not-found response fails where the number segment
  is \<^verbatim>\<open>..\<close>: the path is not canonical, and the answer is
  the redirect with status 301.
\<close>

theorem non_numeric_redirect_counterexample:
  "split_slash ''/octocat/pulls/../abc123/main.go/5/comment'' =
     [[], ''octocat'', ''pulls'', ''..'', ''abc123'', ''main.go'', ''5'', ''comment''] \<and>
   \<not> is_digit CHR ''.'' \<and>
   ServeHTTP (NewRouter example_data)
     \<lparr>Method = ''POST'', Path = ''/octocat/pulls/../abc123/main.go/5/comment'',
      Vars = Map.empty, URL_String = (\<lambda>p. p)\<rparr> fresh =
     Some \<lparr>writer = [Header_Set ''Location'' ''/octocat/abc123/main.go/5/comment'',
                     WriteHeader 301],
           remote_log = [], stdout = []\<rparr> \<and>
   StatusCode (response [Header_Set ''Location'' ''/octocat/abc123/main.go/5/comment'',
                         WriteHeader 301]) = 301 \<and>
   StatusCode (response (http_NotFound [])) = 404"
  by (simp add: ServeHTTP_def cleanPath_dots_as_number fresh_def is_digit_def
      response_not_found response_redirect [unfolded http_StatusMovedPermanently_def]
      http_StatusMovedPermanently_def)

text \<open>
  C8, as amended. The variable \<^verbatim>\<open>{path}\<close> of the pull-comment route stands for one
  segment. A POST to \<^verbatim>\<open>/octocat/pulls/42/abc123/main.go/5/comment\<close>, the file path being a
  single segment, with the user resolved, is answered with 200 and an empty body, and
  a pull-request comment is submitted with number 42, commit \<^verbatim>\<open>abc123\<close>, path
  \<^verbatim>\<open>main.go\<close> and position 5 (for the owner \<^verbatim>\<open>octocat\<close> and the empty repository name,
  the route binding no repository).
\<close>

theorem PullComment_scenario:
  assumes "Client data = Some c"
    and "Users_Get c ''octocat'' = (user, None)"
  shows "\<exists>s'. ServeHTTP (NewRouter data)
                 \<lparr>Method = ''POST'', Path = ''/octocat/pulls/42/abc123/main.go/5/comment'',
                  Vars = vs, URL_String = u\<rparr> fresh = Some s' \<and>
           response (writer s') = \<lparr>StatusCode = 200, Header = Map.empty, Body = []\<rparr> \<and>
           remote_log s' =
             [Call_Users_Get ''octocat'',
              Call_PullRequests_CreateComment ''octocat'' [] 42
                \<lparr>PC_ID = None, PC_Body = Some ''hard coded comment message'',
                 PC_Path = Some ''main.go'', PC_Position = Some 5,
                 PC_CommitID = Some ''abc123'', PC_User = user\<rparr>]"
proof -
  define r' where
    "r' = \<lparr>Method = ''POST'', Path = ''/octocat/pulls/42/abc123/main.go/5/comment'',
            Vars = map_of [(''owner'', ''octocat''), (''number'', ''42''),
              (''commit'', ''abc123''), (''path'', ''main.go''), (''position'', ''5'')],
            URL_String = u\<rparr>"
  have served: "ServeHTTP (NewRouter data)
      \<lparr>Method = ''POST'', Path = ''/octocat/pulls/42/abc123/main.go/5/comment'', Vars = vs, URL_String = u\<rparr> fresh =
      PullComment data r' fresh"
    by (simp add: r'_def ServeHTTP_def cleanPath_one_segment_file one_segment_file_matches)
  have vars: "mux_Vars r' ''owner'' = ''octocat''" "mux_Vars r' ''repo'' = []"
    "mux_Vars r' ''number'' = ''42''" "mux_Vars r' ''commit'' = ''abc123''"
    "mux_Vars r' ''path'' = ''main.go''" "mux_Vars r' ''position'' = ''5''"
    by (simp_all add: r'_def mux_Vars_def)
  have found: "Users_Get c (mux_Vars r' ''owner'') = (user, None)"
    using assms(2) vars(1) by simp
  obtain cmt err where created:
    "PullRequests_CreateComment c (mux_Vars r' ''owner'') (mux_Vars r' ''repo'')
       (fst (Atoi (mux_Vars r' ''number''))) (pull_request_comment r' user) = (cmt, err)"
    by (cases "PullRequests_CreateComment c (mux_Vars r' ''owner'') (mux_Vars r' ''repo'')
       (fst (Atoi (mux_Vars r' ''number''))) (pull_request_comment r' user)")
  show ?thesis
    unfolding served
    using PullComment_user_found [OF assms(1) found created, of fresh]
    by (simp add: vars fresh_def response_nothing_written pull_request_comment_def pull_msg_def
        Atoi_42 Atoi_5)
qed

theorem PullComment_scenario_witness:
  "Client example_data = Some example_client \<and>
   Users_Get example_client ''octocat'' = (Some octocat, None) \<and>
   (\<exists>s'. ServeHTTP (NewRouter example_data)
            \<lparr>Method = ''POST'', Path = ''/octocat/pulls/42/abc123/main.go/5/comment'',
             Vars = Map.empty, URL_String = (\<lambda>p. p)\<rparr> fresh = Some s' \<and>
      response (writer s') = \<lparr>StatusCode = 200, Header = Map.empty, Body = []\<rparr> \<and>
      remote_log s' =
        [Call_Users_Get ''octocat'',
         Call_PullRequests_CreateComment ''octocat'' [] 42
           \<lparr>PC_ID = None, PC_Body = Some ''hard coded comment message'',
            PC_Path = Some ''main.go'', PC_Position = Some 5,
            PC_CommitID = Some ''abc123'', PC_User = Some octocat\<rparr>])"
  using PullComment_scenario [of example_data example_client "Some octocat" Map.empty "\<lambda>p. p"]
  by simp

text \<open>
  With a directory in the file path the scenario fails: the file path \<^verbatim>\<open>src/main.go\<close> makes eight
  segments, no route matches, the answer is 404, and nothing is sent to the remote API,
  although the lookup of \<^verbatim>\<open>octocat\<close> would succeed.
\<close>

theorem PullComment_scenario_counterexample:
  "Users_Get example_client ''octocat'' = (Some octocat, None) \<and>
   ServeHTTP (NewRouter example_data)
     \<lparr>Method = ''POST'', Path = ''/octocat/pulls/42/abc123/src/main.go/5/comment'',
      Vars = Map.empty, URL_String = (\<lambda>p. p)\<rparr> fresh =
     Some \<lparr>writer = http_NotFound [], remote_log = [], stdout = []\<rparr> \<and>
   StatusCode (response (http_NotFound [])) = 404"
  by (simp add: ServeHTTP_def cleanPath_two_segment_file NewRouter_def match_path_def fresh_def
      response_not_found)

end
